theory Spec2Isabelle
  imports Complex_Main
begin

section \<open>Five-point stencil derivatives (NumericDerivatives/stencils.py)\<close>

text \<open>
  The module has two public functions, \<open>D1_5\<close> (first derivative) and \<open>D2_5\<close> (second
  derivative), and ten private kernels. Floating-point numbers are modelled as real
  numbers: every statement about values below is a statement in exact real arithmetic,
  and the values the program computes for a zero step (infinities and NaN) have no
  counterpart here.
\<close>

subsection \<open>Exceptions\<close>

text \<open>
  One constructor per \<open>raise\<close> of the source, named after the Python exception class:
  \<^item> \<open>TypeError_not_ndarray\<close>: "'data' must be of type numpy.ndarray";
  \<^item> \<open>ValueError_dimension\<close>: "'data' must be either 1 or 2 dimensional";
  \<^item> \<open>ValueError_axis_1\<close>: "'axis' can only be equal to 1 for two-dimensional data";
  \<^item> \<open>ValueError_axis_value\<close>: "'axis' can only have the value -1, 0, or 1";
  \<^item> \<open>Exception_fewer_than_5\<close>: "Cannot perform a stencil on fewer than 5 points!";
  \<^item> \<open>Warning_half_data\<close>: "You're using at least half your data to calculate the
    derivative at each point!" (the source raises the class \<open>Warning\<close>);
  \<^item> \<open>IndexError\<close>: what numpy raises for an index out of bounds.
\<close>

datatype error =
    TypeError_not_ndarray
  | ValueError_dimension
  | ValueError_axis_1
  | ValueError_axis_value
  | Exception_fewer_than_5
  | Warning_half_data
  | IndexError

type_synonym 'a res = "error + 'a"

definition bind_res :: "'a res \<Rightarrow> ('a \<Rightarrow> 'b res) \<Rightarrow> 'b res" where
  "bind_res m f = (case m of Inl e \<Rightarrow> Inl e | Inr x \<Rightarrow> f x)"

subsection \<open>Arrays\<close>

text \<open>
  A numpy array is its shape and its elements in row-major order. The argument
  \<open>data\<close> of the public functions is any Python object: an array or something else.
\<close>

datatype ndarray = NDArray (shape: "nat list") (flat: "real list")

datatype pyobj = Ndarray ndarray | NotNdarray

definition wf :: "ndarray \<Rightarrow> bool" where
  "wf a \<longleftrightarrow> length (flat a) = prod_list (shape a)"

text \<open>Python's index resolution on an axis of length \<open>n\<close>: negative indices count from the end.\<close>

definition py_index :: "nat \<Rightarrow> int \<Rightarrow> nat res" where
  "py_index n i =
     (if 0 \<le> i \<and> i < int n then Inr (nat i)
      else if - int n \<le> i \<and> i < 0 then Inr (nat (i + int n))
      else Inl IndexError)"

text \<open>A slice bound is clipped to the length; \<open>xs[a:b]\<close> and \<open>xs[a:]\<close> never raise.\<close>

definition slice_bound :: "nat \<Rightarrow> int \<Rightarrow> nat" where
  "slice_bound n a = (if a < 0 then nat (max 0 (a + int n)) else min n (nat a))"

definition py_slice :: "'a list \<Rightarrow> int \<Rightarrow> int option \<Rightarrow> 'a list" where
  "py_slice xs a b =
     (let n = length xs;
          lo = slice_bound n a;
          hi = (case b of None \<Rightarrow> n | Some b' \<Rightarrow> slice_bound n b')
      in take (hi - lo) (drop lo xs))"

text \<open>\<open>out[i] = v\<close> on a one-dimensional array.\<close>

definition setitem1 :: "ndarray \<Rightarrow> int \<Rightarrow> real \<Rightarrow> ndarray res" where
  "setitem1 out i v =
     bind_res (py_index (shape out ! 0) i) (\<lambda>k.
       Inr (NDArray (shape out) ((flat out)[k := v])))"

text \<open>Row \<open>j\<close> of a two-dimensional array, and \<open>data[j, a:b]\<close>.\<close>

definition row_of :: "ndarray \<Rightarrow> nat \<Rightarrow> real list" where
  "row_of a j = take (shape a ! 1) (drop (j * (shape a ! 1)) (flat a))"

definition getitem_row_slice :: "ndarray \<Rightarrow> int \<Rightarrow> int \<Rightarrow> int option \<Rightarrow> real list res" where
  "getitem_row_slice a j lo hi =
     bind_res (py_index (shape a ! 0) j) (\<lambda>r. Inr (py_slice (row_of a r) lo hi))"

text \<open>\<open>out[j, i] = v\<close> on a two-dimensional array.\<close>

definition setitem2 :: "ndarray \<Rightarrow> int \<Rightarrow> int \<Rightarrow> real \<Rightarrow> ndarray res" where
  "setitem2 out j i v =
     bind_res (py_index (shape out ! 0) j) (\<lambda>r.
     bind_res (py_index (shape out ! 1) i) (\<lambda>k.
       Inr (NDArray (shape out) ((flat out)[r * (shape out ! 1) + k := v]))))"

text \<open>
  \<open>data.T\<close>. The source takes it of two-dimensional arrays only: element \<open>[j, i]\<close> of the
  transpose is element \<open>[i, j]\<close> of the array. On a one-dimensional array numpy's \<open>.T\<close> is
  the identity; higher ranks never reach it.
\<close>

definition transpose_nd :: "ndarray \<Rightarrow> ndarray" where
  "transpose_nd a =
     (case shape a of
        [r, c] \<Rightarrow> NDArray [c, r]
                   (concat (map (\<lambda>j. map (\<lambda>i. flat a ! (i * c + j)) [0..<r]) [0..<c]))
      | _ \<Rightarrow> a)"

subsection \<open>The kernels\<close>

text \<open>
  Each kernel reads \<open>p[0]\<close> to \<open>p[4]\<close>; on a window of fewer than five elements the read of
  \<open>p[4]\<close> (or an earlier one) raises IndexError.
\<close>

definition D1_Five_Point_Stencil :: "real list \<Rightarrow> real \<Rightarrow> real res" where
  "D1_Five_Point_Stencil p h =
     (if length p < 5 then Inl IndexError
      else Inr ((8 * (p ! 3 - p ! 1) - (p ! 4 - p ! 0)) / (12 * h)))"

definition D1_Five_Point_Stencil_Assymmetric_F :: "real list \<Rightarrow> real \<Rightarrow> real res" where
  "D1_Five_Point_Stencil_Assymmetric_F p h =
     (if length p < 5 then Inl IndexError
      else Inr ((- 10 * p ! 1 + 18 * p ! 2 - 3 * p ! 0 - 6 * p ! 3 + p ! 4) / (12 * h)))"

definition D1_Five_Point_Stencil_Assymmetric_B :: "real list \<Rightarrow> real \<Rightarrow> real res" where
  "D1_Five_Point_Stencil_Assymmetric_B p h =
     (if length p < 5 then Inl IndexError
      else Inr ((10 * p ! 3 + 3 * p ! 4 - 18 * p ! 2 + 6 * p ! 1 - p ! 0) / (12 * h)))"

definition D1_Five_Point_Stencil_Forward :: "real list \<Rightarrow> real \<Rightarrow> real res" where
  "D1_Five_Point_Stencil_Forward p h =
     (if length p < 5 then Inl IndexError
      else Inr ((- 25 * p ! 0 + 48 * p ! 1 - 36 * p ! 2 + 16 * p ! 3 - 3 * p ! 4) / (12 * h)))"

definition D1_Five_Point_Stencil_Backward :: "real list \<Rightarrow> real \<Rightarrow> real res" where
  "D1_Five_Point_Stencil_Backward p h =
     (if length p < 5 then Inl IndexError
      else Inr ((25 * p ! 4 - 48 * p ! 3 + 36 * p ! 2 - 16 * p ! 1 + 3 * p ! 0) / (12 * h)))"

definition D2_Five_Point_Stencil :: "real list \<Rightarrow> real \<Rightarrow> real res" where
  "D2_Five_Point_Stencil p h =
     (if length p < 5 then Inl IndexError
      else Inr ((- 30 * p ! 2 + 16 * (p ! 1 + p ! 3) - (p ! 0 + p ! 4)) / (12 * h ^ 2)))"

definition D2_Five_Point_Stencil_Assymmetric_F :: "real list \<Rightarrow> real \<Rightarrow> real res" where
  "D2_Five_Point_Stencil_Assymmetric_F p h =
     (if length p < 5 then Inl IndexError
      else Inr ((11 * p ! 0 - 20 * p ! 1 + 6 * p ! 2 + 4 * p ! 3 - 1 * p ! 4) / (12 * h ^ 2)))"

definition D2_Five_Point_Stencil_Assymmetric_B :: "real list \<Rightarrow> real \<Rightarrow> real res" where
  "D2_Five_Point_Stencil_Assymmetric_B p h =
     (if length p < 5 then Inl IndexError
      else Inr ((- 1 * p ! 0 + 4 * p ! 1 + 6 * p ! 2 - 20 * p ! 3 + 11 * p ! 4) / (12 * h ^ 2)))"

definition D2_Five_Point_Stencil_Forward :: "real list \<Rightarrow> real \<Rightarrow> real res" where
  "D2_Five_Point_Stencil_Forward p h =
     (if length p < 5 then Inl IndexError
      else Inr ((35 * p ! 0 - 104 * p ! 1 + 114 * p ! 2 - 56 * p ! 3 + 11 * p ! 4) / (12 * h ^ 2)))"

definition D2_Five_Point_Stencil_Backward :: "real list \<Rightarrow> real \<Rightarrow> real res" where
  "D2_Five_Point_Stencil_Backward p h =
     (if length p < 5 then Inl IndexError
      else Inr ((11 * p ! 0 - 56 * p ! 1 + 114 * p ! 2 - 104 * p ! 3 + 35 * p ! 4) / (12 * h ^ 2)))"

subsection \<open>The public functions\<close>

text \<open>
  The bodies of \<open>D1_5\<close> (lines 142 to 191) and \<open>D2_5\<close> (lines 324 to 373) are the same text
  except for the names of the five kernels they call. The body is modelled once, over a
  record of the five kernels, and instantiated twice.
\<close>

record kernels =
  Forward :: "real list \<Rightarrow> real \<Rightarrow> real res"
  Assymmetric_F :: "real list \<Rightarrow> real \<Rightarrow> real res"
  Assymmetric_B :: "real list \<Rightarrow> real \<Rightarrow> real res"
  Backward :: "real list \<Rightarrow> real \<Rightarrow> real res"
  Centered :: "real list \<Rightarrow> real \<Rightarrow> real res"

definition D1_kernels :: kernels where
  "D1_kernels =
     \<lparr>Forward = D1_Five_Point_Stencil_Forward,
      Assymmetric_F = D1_Five_Point_Stencil_Assymmetric_F,
      Assymmetric_B = D1_Five_Point_Stencil_Assymmetric_B,
      Backward = D1_Five_Point_Stencil_Backward,
      Centered = D1_Five_Point_Stencil\<rparr>"

definition D2_kernels :: kernels where
  "D2_kernels =
     \<lparr>Forward = D2_Five_Point_Stencil_Forward,
      Assymmetric_F = D2_Five_Point_Stencil_Assymmetric_F,
      Assymmetric_B = D2_Five_Point_Stencil_Assymmetric_B,
      Backward = D2_Five_Point_Stencil_Backward,
      Centered = D2_Five_Point_Stencil\<rparr>"

text \<open>
  \<open>for i in range(...): body\<close>, the loop variable running through a list; an exception in
  the body ends the loop.
\<close>

fun for_loop :: "nat list \<Rightarrow> (nat \<Rightarrow> 's \<Rightarrow> 's res) \<Rightarrow> 's \<Rightarrow> 's res" where
  "for_loop [] body s = Inr s"
| "for_loop (i # is) body s = bind_res (body i s) (for_loop is body)"

text \<open>
  The \<open>if\<close>/\<open>elif\<close> chain on \<open>axis\<close> (lines 148 to 155); it returns the value \<open>axis\<close> has
  afterwards.
\<close>

definition check_axis :: "nat list \<Rightarrow> int \<Rightarrow> int res" where
  "check_axis data_shape axis =
     (if axis = - 1 then Inr (int (length data_shape) - 1)
      else if axis = 1 \<and> length data_shape \<noteq> 2 then Inl ValueError_axis_1
      else if axis = 0 then Inr axis
      else Inl ValueError_axis_value)"

text \<open>
  The one-dimensional branch (lines 172 to 177). \<open>range(2, data_shape[0]-2)\<close> is
  \<open>[2..<n - 2]\<close>: where Python's bound is negative the range is empty, as the list is under
  truncating subtraction.
\<close>

definition fill_1d :: "kernels \<Rightarrow> ndarray \<Rightarrow> real \<Rightarrow> ndarray \<Rightarrow> ndarray res" where
  "fill_1d K data step out =
     bind_res (Forward K (py_slice (flat data) 0 (Some 5)) step) (\<lambda>v.
     bind_res (setitem1 out 0 v) (\<lambda>out.
     bind_res (Assymmetric_F K (py_slice (flat data) 0 (Some 5)) step) (\<lambda>v.
     bind_res (setitem1 out 1 v) (\<lambda>out.
     bind_res (Assymmetric_B K (py_slice (flat data) (- 5) None) step) (\<lambda>v.
     bind_res (setitem1 out (- 2) v) (\<lambda>out.
     bind_res (Backward K (py_slice (flat data) (- 5) None) step) (\<lambda>v.
     bind_res (setitem1 out (- 1) v) (\<lambda>out.
     for_loop [2..<shape data ! 0 - 2]
       (\<lambda>i out.
          bind_res (Centered K (py_slice (flat data) (int i - 2) (Some (int i + 3))) step)
            (\<lambda>v. setitem1 out (int i) v))
       out))))))))"

text \<open>The body of the loop over the rows in the two-dimensional branch (lines 180 to 185).\<close>

definition fill_row :: "kernels \<Rightarrow> ndarray \<Rightarrow> real \<Rightarrow> nat \<Rightarrow> ndarray \<Rightarrow> ndarray res" where
  "fill_row K data step j out =
     bind_res (getitem_row_slice data (int j) 0 (Some 5)) (\<lambda>p.
     bind_res (Forward K p step) (\<lambda>v.
     bind_res (setitem2 out (int j) 0 v) (\<lambda>out.
     bind_res (getitem_row_slice data (int j) 0 (Some 5)) (\<lambda>p.
     bind_res (Assymmetric_F K p step) (\<lambda>v.
     bind_res (setitem2 out (int j) 1 v) (\<lambda>out.
     bind_res (getitem_row_slice data (int j) (- 5) None) (\<lambda>p.
     bind_res (Assymmetric_B K p step) (\<lambda>v.
     bind_res (setitem2 out (int j) (- 2) v) (\<lambda>out.
     bind_res (getitem_row_slice data (int j) (- 5) None) (\<lambda>p.
     bind_res (Backward K p step) (\<lambda>v.
     bind_res (setitem2 out (int j) (- 1) v) (\<lambda>out.
     for_loop [2..<shape data ! 1 - 2]
       (\<lambda>i out.
          bind_res (getitem_row_slice data (int j) (int i - 2) (Some (int i + 3))) (\<lambda>p.
          bind_res (Centered K p step) (\<lambda>v.
          setitem2 out (int j) (int i) v)))
       out))))))))))))"

text \<open>The two-dimensional branch (lines 178 to 185).\<close>

definition fill_2d :: "kernels \<Rightarrow> ndarray \<Rightarrow> real \<Rightarrow> ndarray \<Rightarrow> ndarray res" where
  "fill_2d K data step out = for_loop [0..<shape data ! 0] (fill_row K data step) out"

text \<open>
  The body up to line 167: the checks on \<open>data\<close> and \<open>axis\<close>, the transposition for
  \<open>axis = 0\<close> on two-dimensional data, and the checks on the number of samples. It reads
  \<open>data\<close> and \<open>axis\<close> only, and hands \<open>data\<close> and \<open>bRotated\<close>, as they are after line 167,
  to the rest of the body. \<open>data_shape[-1]\<close> is the last entry of a shape of length one
  or two.
\<close>

definition validate :: "pyobj \<Rightarrow> int \<Rightarrow> (ndarray \<times> bool) res" where
  "validate data axis =
     (case data of
        NotNdarray \<Rightarrow> Inl TypeError_not_ndarray
      | Ndarray data0 \<Rightarrow>
          if \<not> (length (shape data0) = 1 \<or> length (shape data0) = 2)
          then Inl ValueError_dimension
          else
            bind_res (check_axis (shape data0) axis) (\<lambda>axis'.
              let bRotated = (length (shape data0) = 2 \<and> axis' = 0);
                  data1 = (if bRotated then transpose_nd data0 else data0);
                  data_shape = shape data1
              in if last data_shape < 5 then Inl Exception_fewer_than_5
                 else if last data_shape < 10 then Inl Warning_half_data
                 else Inr (data1, bRotated)))"

text \<open>
  The body from line 169 on. \<open>out = -100.0 + 0.0*np.copy(data)\<close> is a fresh array of the
  shape of \<open>data\<close>; the two \<open>if\<close> statements on the rank follow one another, and the
  result is transposed back where the data was.
\<close>

definition differentiate :: "kernels \<Rightarrow> ndarray \<Rightarrow> bool \<Rightarrow> real \<Rightarrow> ndarray res" where
  "differentiate K data bRotated step =
     (let data_shape = shape data;
          out = NDArray data_shape (map (\<lambda>x. - 100 + 0 * x) (flat data))
      in bind_res (if length data_shape = 1 then fill_1d K data step out else Inr out) (\<lambda>out.
         bind_res (if length data_shape = 2 then fill_2d K data step out else Inr out) (\<lambda>out.
         Inr (if bRotated then transpose_nd out else out))))"

definition five_point :: "kernels \<Rightarrow> pyobj \<Rightarrow> real \<Rightarrow> int \<Rightarrow> ndarray res" where
  "five_point K data step axis =
     bind_res (validate data axis) (\<lambda>(data1, bRotated). differentiate K data1 bRotated step)"

definition D1_5 :: "pyobj \<Rightarrow> real \<Rightarrow> int \<Rightarrow> ndarray res" where
  "D1_5 data step axis = five_point D1_kernels data step axis"

definition D2_5 :: "pyobj \<Rightarrow> real \<Rightarrow> int \<Rightarrow> ndarray res" where
  "D2_5 data step axis = five_point D2_kernels data step axis"

subsection \<open>What a row becomes\<close>

text \<open>
  The dispatch of section 4.3 of the specification, written as a function of the index:
  the forward kernel at index 0, the near-forward one at index 1, both on the first
  five samples; the near-backward one at index \<open>n - 2\<close> and the backward one at index
  \<open>n - 1\<close>, both on the last five samples; the centered kernel on the samples
  \<open>i - 2\<close> to \<open>i + 2\<close> everywhere else. The loops of the source are compared with it
  below.
\<close>

definition cell :: "kernels \<Rightarrow> real list \<Rightarrow> real \<Rightarrow> nat \<Rightarrow> real" where
  "cell K xs h i =
     projr (if i = 0 then Forward K (take 5 xs) h
            else if i = 1 then Assymmetric_F K (take 5 xs) h
            else if i = length xs - 2 then Assymmetric_B K (drop (length xs - 5) xs) h
            else if i = length xs - 1 then Backward K (drop (length xs - 5) xs) h
            else Centered K (take 5 (drop (i - 2) xs)) h)"

definition stencil_row :: "kernels \<Rightarrow> real list \<Rightarrow> real \<Rightarrow> real list" where
  "stencil_row K xs h = map (cell K xs h) [0..<length xs]"


text \<open>The five kernels of a record return a value on every window of five samples.\<close>

definition total5 :: "kernels \<Rightarrow> bool" where
  "total5 K \<longleftrightarrow>
     (\<forall>p h. length p = 5 \<longrightarrow>
        \<not> isl (Forward K p h) \<and> \<not> isl (Assymmetric_F K p h) \<and>
        \<not> isl (Assymmetric_B K p h) \<and> \<not> isl (Backward K p h) \<and>
        \<not> isl (Centered K p h))"

text \<open>The order in which the source writes the entries of a row of length \<open>n\<close>.\<close>

definition write_order :: "nat \<Rightarrow> nat list" where
  "write_order n = [0, 1, n - 2, n - 1] @ [2..<n - 2]"

subsection \<open>Sampled polynomials\<close>

text \<open>
  A quadratic \<open>a + b x + c x\<^sup>2\<close> (linear for \<open>c = 0\<close>), a function sampled at \<open>n\<close> points
  \<open>x0, x0 + h, x0 + 2 h, ...\<close>, and five consecutive samples starting at \<open>t\<close>.
\<close>

definition quadratic :: "real \<Rightarrow> real \<Rightarrow> real \<Rightarrow> real \<Rightarrow> real" where
  "quadratic a b c x = a + b * x + c * x ^ 2"

definition samples :: "(real \<Rightarrow> real) \<Rightarrow> real \<Rightarrow> real \<Rightarrow> nat \<Rightarrow> real list" where
  "samples f x0 h n = map (\<lambda>i. f (x0 + real i * h)) [0..<n]"

definition window5 :: "(real \<Rightarrow> real) \<Rightarrow> real \<Rightarrow> real \<Rightarrow> real list" where
  "window5 f t h = [f t, f (t + h), f (t + 2 * h), f (t + 3 * h), f (t + 4 * h)]"

text \<open>Two arrays of one shape and one number of elements.\<close>

definition same_size :: "ndarray \<Rightarrow> ndarray \<Rightarrow> bool" where
  "same_size a b \<longleftrightarrow> shape a = shape b \<and> length (flat a) = length (flat b)"

section \<open>Basic facts about the model\<close>

lemma bind_res_Inr [simp]: "bind_res (Inr x) f = f x"
  by (simp add: bind_res_def)

lemma bind_res_Inl [simp]: "bind_res (Inl e) f = Inl e"
  by (simp add: bind_res_def)

lemma bind_res_eq_Inr:
  "bind_res m f = Inr y \<longleftrightarrow> (\<exists>x. m = Inr x \<and> f x = Inr y)"
  by (cases m) simp_all

lemma py_index_nat: "i < n \<Longrightarrow> py_index n (int i) = Inr i"
  by (simp add: py_index_def)

lemma py_index_0: "0 < n \<Longrightarrow> py_index n 0 = Inr 0"
  by (simp add: py_index_def)

lemma py_index_1: "1 < n \<Longrightarrow> py_index n 1 = Inr 1"
  by (simp add: py_index_def)

lemma py_index_minus_1: "1 \<le> n \<Longrightarrow> py_index n (- 1) = Inr (n - 1)"
  by (auto simp add: py_index_def nat_eq_iff)

lemma py_index_minus_2: "2 \<le> n \<Longrightarrow> py_index n (- 2) = Inr (n - 2)"
  by (auto simp add: py_index_def nat_eq_iff)

lemma py_slice_first5: "5 \<le> length xs \<Longrightarrow> py_slice xs 0 (Some 5) = take 5 xs"
  by (simp add: py_slice_def slice_bound_def)

lemma py_slice_last5: "py_slice xs (- 5) None = drop (length xs - 5) xs"
  by (auto simp add: py_slice_def slice_bound_def Let_def nat_diff_distrib max_def)

lemma py_slice_window:
  "2 \<le> i \<Longrightarrow> i + 3 \<le> length xs \<Longrightarrow>
   py_slice xs (int i - 2) (Some (int i + 3)) = take 5 (drop (i - 2) xs)"
  by (auto simp add: py_slice_def slice_bound_def Let_def nat_diff_distrib nat_add_distrib
      min_def)

subsection \<open>The kernels return on windows of five\<close>

lemma total5_D1: "total5 D1_kernels"
  by (simp add: total5_def D1_kernels_def D1_Five_Point_Stencil_def
      D1_Five_Point_Stencil_Assymmetric_F_def D1_Five_Point_Stencil_Assymmetric_B_def
      D1_Five_Point_Stencil_Forward_def D1_Five_Point_Stencil_Backward_def)

lemma total5_D2: "total5 D2_kernels"
  by (simp add: total5_def D2_kernels_def D2_Five_Point_Stencil_def
      D2_Five_Point_Stencil_Assymmetric_F_def D2_Five_Point_Stencil_Assymmetric_B_def
      D2_Five_Point_Stencil_Forward_def D2_Five_Point_Stencil_Backward_def)

lemma not_isl_projr: "\<not> isl m \<Longrightarrow> m = Inr (projr m)"
  by (cases m) simp_all

lemma total5_Forward: "total5 K \<Longrightarrow> length p = 5 \<Longrightarrow> Forward K p h = Inr (projr (Forward K p h))"
  by (simp add: total5_def not_isl_projr)

lemma total5_Assymmetric_F:
  "total5 K \<Longrightarrow> length p = 5 \<Longrightarrow> Assymmetric_F K p h = Inr (projr (Assymmetric_F K p h))"
  by (simp add: total5_def not_isl_projr)

lemma total5_Assymmetric_B:
  "total5 K \<Longrightarrow> length p = 5 \<Longrightarrow> Assymmetric_B K p h = Inr (projr (Assymmetric_B K p h))"
  by (simp add: total5_def not_isl_projr)

lemma total5_Backward:
  "total5 K \<Longrightarrow> length p = 5 \<Longrightarrow> Backward K p h = Inr (projr (Backward K p h))"
  by (simp add: total5_def not_isl_projr)

lemma total5_Centered:
  "total5 K \<Longrightarrow> length p = 5 \<Longrightarrow> Centered K p h = Inr (projr (Centered K p h))"
  by (simp add: total5_def not_isl_projr)

subsection \<open>Writes into a list\<close>

lemma length_fold_update [simp]:
  "length (fold (\<lambda>i r. r[off + i := f i]) is r) = length r"
  by (induction "is" arbitrary: r) simp_all

lemma nth_fold_update:
  "k < length r \<Longrightarrow>
   fold (\<lambda>i r. r[i := f i]) is r ! k = (if k \<in> set is then f k else r ! k)"
  by (induction "is" arbitrary: r) (auto simp add: nth_list_update)

lemma set_write_order: "5 \<le> n \<Longrightarrow> set (write_order n) = {..<n}"
  by (auto simp add: write_order_def)

lemma written_row:
  assumes "5 \<le> length ys"
  shows "fold (\<lambda>i r. r[i := f i]) (write_order (length ys)) ys = map f [0..<length ys]"
proof (rule nth_equalityI)
  show "length (fold (\<lambda>i r. r[i := f i]) (write_order (length ys)) ys) = length (map f [0..<length ys])"
    using length_fold_update [of 0 f] by simp
next
  fix k assume "k < length (fold (\<lambda>i r. r[i := f i]) (write_order (length ys)) ys)"
  then have k: "k < length ys" using length_fold_update [of 0 f] by simp
  then show "fold (\<lambda>i r. r[i := f i]) (write_order (length ys)) ys ! k = map f [0..<length ys] ! k"
    using assms by (simp add: nth_fold_update set_write_order)
qed


subsection \<open>One-dimensional branch\<close>

lemma cell_0: "cell K xs h 0 = projr (Forward K (take 5 xs) h)"
  by (simp add: cell_def)

lemma cell_1: "cell K xs h (Suc 0) = projr (Assymmetric_F K (take 5 xs) h)"
  by (simp add: cell_def)

lemma cell_n2:
  "5 \<le> length xs \<Longrightarrow>
   cell K xs h (length xs - 2) = projr (Assymmetric_B K (drop (length xs - 5) xs) h)"
  by (auto simp add: cell_def)

lemma cell_n1:
  "5 \<le> length xs \<Longrightarrow>
   cell K xs h (length xs - 1) = projr (Backward K (drop (length xs - 5) xs) h)"
  by (auto simp add: cell_def)

lemma cell_mid:
  "2 \<le> i \<Longrightarrow> i < length xs - 2 \<Longrightarrow>
   cell K xs h i = projr (Centered K (take 5 (drop (i - 2) xs)) h)"
  by (auto simp add: cell_def)

lemma setitem1_nat:
  "i < n \<Longrightarrow> setitem1 (NDArray (n # s) ys) (int i) v = Inr (NDArray (n # s) (ys[i := v]))"
  by (simp add: setitem1_def py_index_nat)

lemma centered_loop_1d:
  assumes "total5 K" and "length xs = n" and "set is \<subseteq> {2..<n - 2}"
  shows "for_loop is
           (\<lambda>i out. bind_res (Centered K (py_slice xs (int i - 2) (Some (int i + 3))) h)
                       (\<lambda>v. setitem1 out (int i) v))
           (NDArray [n] ys)
         = Inr (NDArray [n] (fold (\<lambda>i r. r[i := cell K xs h i]) is ys))"
  using assms(3)
proof (induction "is" arbitrary: ys)
  case Nil
  show ?case by simp
next
  case (Cons i "is")
  then have i: "2 \<le> i" "i < n - 2" and rest: "set is \<subseteq> {2..<n - 2}"
    by auto
  have win: "py_slice xs (int i - 2) (Some (int i + 3)) = take 5 (drop (i - 2) xs)"
    using i assms(2) by (intro py_slice_window) auto
  have len: "length (take 5 (drop (i - 2) xs)) = 5"
    using i assms(2) by auto
  have "Centered K (take 5 (drop (i - 2) xs)) h = Inr (cell K xs h i)"
    using total5_Centered [OF assms(1) len] i assms(2) by (simp add: cell_mid)
  moreover have "i < n" using i by simp
  ultimately show ?case
    using Cons.IH [OF rest] by (simp add: win setitem1_nat)
qed

lemma fill_1d_row:
  assumes "total5 K" and "shape data = [n]" and "length (flat data) = n"
    and "length ys = n" and "5 \<le> n"
  shows "fill_1d K data h (NDArray [n] ys) = Inr (NDArray [n] (stencil_row K (flat data) h))"
proof -
  let ?xs = "flat data"
  have first: "py_slice ?xs 0 (Some 5) = take 5 ?xs"
    using assms by (simp add: py_slice_first5)
  have last: "py_slice ?xs (- 5) None = drop (n - 5) ?xs"
    using assms by (simp add: py_slice_last5)
  have l1: "length (take 5 ?xs) = 5" and l2: "length (drop (n - 5) ?xs) = 5"
    using assms by auto
  have k0: "Forward K (take 5 ?xs) h = Inr (cell K ?xs h 0)"
    using total5_Forward [OF assms(1) l1] by (simp add: cell_0)
  have k1: "Assymmetric_F K (take 5 ?xs) h = Inr (cell K ?xs h 1)"
    using total5_Assymmetric_F [OF assms(1) l1] by (simp add: cell_1)
  have k2: "Assymmetric_B K (drop (n - 5) ?xs) h = Inr (cell K ?xs h (n - 2))"
    using total5_Assymmetric_B [OF assms(1) l2] assms cell_n2 [of ?xs K h] by simp
  have k3: "Backward K (drop (n - 5) ?xs) h = Inr (cell K ?xs h (n - 1))"
    using total5_Backward [OF assms(1) l2] assms cell_n1 [of ?xs K h] by simp
  have s0: "\<And>zs v. setitem1 (NDArray [n] zs) 0 v = Inr (NDArray [n] (zs[0 := v]))"
    using assms by (simp add: setitem1_def py_index_0)
  have s1: "\<And>zs v. setitem1 (NDArray [n] zs) 1 v = Inr (NDArray [n] (zs[1 := v]))"
    using assms by (simp add: setitem1_def py_index_1)
  have s2: "\<And>zs v. setitem1 (NDArray [n] zs) (- 2) v = Inr (NDArray [n] (zs[n - 2 := v]))"
    using assms by (simp add: setitem1_def py_index_minus_2)
  have s3: "\<And>zs v. setitem1 (NDArray [n] zs) (- 1) v = Inr (NDArray [n] (zs[n - 1 := v]))"
    using assms by (simp add: setitem1_def py_index_minus_1)
  have "fill_1d K data h (NDArray [n] ys)
        = Inr (NDArray [n] (fold (\<lambda>i r. r[i := cell K ?xs h i]) (write_order n) ys))"
    using assms(2)
    by (simp add: fill_1d_def first last k0 k1 k2 k3 s0 s1 s2 s3 write_order_def
        centered_loop_1d [OF assms(1) assms(3)])
  also have "fold (\<lambda>i r. r[i := cell K ?xs h i]) (write_order n) ys
             = map (cell K ?xs h) [0..<n]"
    using written_row [of ys "cell K ?xs h"] assms by simp
  finally show ?thesis
    using assms by (simp add: stencil_row_def)
qed


subsection \<open>Rows of a two-dimensional array\<close>

lemma row_start: "j < j' \<Longrightarrow> j * c + c \<le> j' * (c::nat)"
proof -
  assume "j < j'"
  then have "Suc j * c \<le> j' * c" by (intro mult_le_mono1) simp
  then show ?thesis by (simp add: add.commute)
qed

lemma row_of_NDArray: "row_of (NDArray [r, c] fl) j = take c (drop (j * c) fl)"
  by (simp add: row_of_def)

lemma length_row_of:
  assumes "shape a = [r, c]" and "length (flat a) = r * c" and "j < r"
  shows "length (row_of a j) = c"
proof -
  have "j * c + c \<le> r * c" using assms(3) by (rule row_start)
  then show ?thesis using assms by (simp add: row_of_def)
qed

lemma row_of_update:
  assumes "k < c"
  shows "row_of (NDArray [r, c] (fl[j * c + k := v])) j'
         = (if j' = j then (row_of (NDArray [r, c] fl) j)[k := v]
            else row_of (NDArray [r, c] fl) j')"
proof -
  consider "j' = j" | "j' < j" | "j < j'" by arith
  then show ?thesis
  proof cases
    case 1
    then show ?thesis
      by (simp add: row_of_NDArray drop_update_swap take_update_swap)
  next
    case 2
    then have "j' * c + c \<le> j * c" by (rule row_start)
    then have le: "j' * c \<le> j * c + k" and ge: "c \<le> j * c + k - j' * c" by arith+
    show ?thesis
      using 2 by (simp add: row_of_NDArray drop_update_swap [OF le] take_update_cancel [OF ge])
  next
    case 3
    then have "j * c + c \<le> j' * c" by (rule row_start)
    then have "j * c + k < j' * c" using assms by arith
    then show ?thesis
      using 3 by (simp add: row_of_NDArray drop_update_cancel)
  qed
qed

lemma row_of_fold_update:
  assumes "\<forall>i \<in> set is. i < c"
  shows "row_of (NDArray [r, c] (fold (\<lambda>i f. f[j * c + i := g i]) is fl)) j'
         = (if j' = j then fold (\<lambda>i r. r[i := g i]) is (row_of (NDArray [r, c] fl) j)
            else row_of (NDArray [r, c] fl) j')"
  using assms
proof (induction "is" arbitrary: fl)
  case Nil
  show ?case by simp
next
  case (Cons i "is")
  then have "i < c" and "\<forall>i \<in> set is. i < c" by auto
  then show ?case
    using Cons.IH [of "fl[j * c + i := g i]"] by (simp add: row_of_update)
qed

subsection \<open>Two-dimensional branch\<close>

lemma setitem2_nat:
  "j < r \<Longrightarrow> i < c \<Longrightarrow>
   setitem2 (NDArray [r, c] fl) (int j) (int i) v = Inr (NDArray [r, c] (fl[j * c + i := v]))"
  by (simp add: setitem2_def py_index_nat)

lemma getitem_row_slice_nat:
  "shape a = [r, c] \<Longrightarrow> j < r \<Longrightarrow>
   getitem_row_slice a (int j) lo hi = Inr (py_slice (row_of a j) lo hi)"
  by (simp add: getitem_row_slice_def py_index_nat)

lemma centered_loop_2d:
  assumes "total5 K" and "shape data = [r, c]" and "length (flat data) = r * c" and "j < r"
    and "set is \<subseteq> {2..<c - 2}"
  shows "for_loop is
           (\<lambda>i out.
              bind_res (getitem_row_slice data (int j) (int i - 2) (Some (int i + 3))) (\<lambda>p.
              bind_res (Centered K p h) (\<lambda>v.
              setitem2 out (int j) (int i) v)))
           (NDArray [r, c] fl)
         = Inr (NDArray [r, c]
                 (fold (\<lambda>i f. f[j * c + i := cell K (row_of data j) h i]) is fl))"
  using assms(5)
proof (induction "is" arbitrary: fl)
  case Nil
  show ?case by simp
next
  case (Cons i "is")
  let ?xs = "row_of data j"
  have n: "length ?xs = c" using assms(2,3,4) by (rule length_row_of)
  from Cons.prems have i: "2 \<le> i" "i < c - 2" and rest: "set is \<subseteq> {2..<c - 2}"
    by auto
  have win: "py_slice ?xs (int i - 2) (Some (int i + 3)) = take 5 (drop (i - 2) ?xs)"
    using i n by (intro py_slice_window) auto
  have len: "length (take 5 (drop (i - 2) ?xs)) = 5"
    using i n by auto
  have "Centered K (take 5 (drop (i - 2) ?xs)) h = Inr (cell K ?xs h i)"
    using total5_Centered [OF assms(1) len] i n by (simp add: cell_mid)
  moreover have "i < c" using i by simp
  ultimately show ?case
    using Cons.IH [OF rest] assms(2,4)
    by (simp add: getitem_row_slice_nat win setitem2_nat)
qed

lemma fill_row_flat:
  assumes "total5 K" and "shape data = [r, c]" and "length (flat data) = r * c" and "j < r"
    and "5 \<le> c"
  shows "fill_row K data h j (NDArray [r, c] fl)
         = Inr (NDArray [r, c]
                 (fold (\<lambda>i f. f[j * c + i := cell K (row_of data j) h i]) (write_order c) fl))"
proof -
  let ?xs = "row_of data j"
  have n: "length ?xs = c" using assms(2,3,4) by (rule length_row_of)
  have first: "py_slice ?xs 0 (Some 5) = take 5 ?xs"
    using assms n by (simp add: py_slice_first5)
  have last: "py_slice ?xs (- 5) None = drop (c - 5) ?xs"
    using n by (simp add: py_slice_last5)
  have l1: "length (take 5 ?xs) = 5" and l2: "length (drop (c - 5) ?xs) = 5"
    using assms n by auto
  have k0: "Forward K (take 5 ?xs) h = Inr (cell K ?xs h 0)"
    using total5_Forward [OF assms(1) l1] by (simp add: cell_0)
  have k1: "Assymmetric_F K (take 5 ?xs) h = Inr (cell K ?xs h 1)"
    using total5_Assymmetric_F [OF assms(1) l1] by (simp add: cell_1)
  have k2: "Assymmetric_B K (drop (c - 5) ?xs) h = Inr (cell K ?xs h (c - 2))"
    using total5_Assymmetric_B [OF assms(1) l2] assms(5) n cell_n2 [of ?xs K h] by simp
  have k3: "Backward K (drop (c - 5) ?xs) h = Inr (cell K ?xs h (c - 1))"
    using total5_Backward [OF assms(1) l2] assms(5) n cell_n1 [of ?xs K h] by simp
  have s0: "\<And>zs v. setitem2 (NDArray [r, c] zs) (int j) 0 v
                    = Inr (NDArray [r, c] (zs[j * c + 0 := v]))"
    using assms by (simp add: setitem2_def py_index_nat py_index_0)
  have s1: "\<And>zs v. setitem2 (NDArray [r, c] zs) (int j) 1 v
                    = Inr (NDArray [r, c] (zs[j * c + 1 := v]))"
    using assms by (simp add: setitem2_def py_index_nat py_index_1)
  have s2: "\<And>zs v. setitem2 (NDArray [r, c] zs) (int j) (- 2) v
                    = Inr (NDArray [r, c] (zs[j * c + (c - 2) := v]))"
    using assms by (simp add: setitem2_def py_index_nat py_index_minus_2)
  have s3: "\<And>zs v. setitem2 (NDArray [r, c] zs) (int j) (- 1) v
                    = Inr (NDArray [r, c] (zs[j * c + (c - 1) := v]))"
    using assms by (simp add: setitem2_def py_index_nat py_index_minus_1)
  have g1: "getitem_row_slice data (int j) 0 (Some 5) = Inr (py_slice ?xs 0 (Some 5))"
    using assms(2,4) by (rule getitem_row_slice_nat)
  have g2: "getitem_row_slice data (int j) (- 5) None = Inr (py_slice ?xs (- 5) None)"
    using assms(2,4) by (rule getitem_row_slice_nat)
  show ?thesis
    using assms(2)
    by (simp add: fill_row_def g1 g2 first last k0 k1 k2 k3 s0 s1 s2 s3 write_order_def
        centered_loop_2d [OF assms(1) assms(2) assms(3) assms(4)] del: add_0_right)
qed


lemma write_order_less: "5 \<le> c \<Longrightarrow> \<forall>i \<in> set (write_order c). i < c"
  by (simp add: set_write_order)

lemma fill_row_rows:
  assumes "total5 K" and "shape data = [r, c]" and "length (flat data) = r * c" and "j < r"
    and "5 \<le> c" and "length fl = r * c"
  shows "\<exists>fl'. fill_row K data h j (NDArray [r, c] fl) = Inr (NDArray [r, c] fl') \<and>
           length fl' = r * c \<and>
           (\<forall>j'. row_of (NDArray [r, c] fl') j'
                  = (if j' = j then stencil_row K (row_of data j) h
                     else row_of (NDArray [r, c] fl) j'))"
proof -
  let ?g = "cell K (row_of data j) h"
  let ?fl' = "fold (\<lambda>i f. f[j * c + i := ?g i]) (write_order c) fl"
  have n: "length (row_of data j) = c" using assms(2,3,4) by (rule length_row_of)
  have m: "length (row_of (NDArray [r, c] fl) j) = c"
    using assms(4,6) by (intro length_row_of) simp_all
  have "fold (\<lambda>i r. r[i := ?g i]) (write_order c) (row_of (NDArray [r, c] fl) j)
        = stencil_row K (row_of data j) h"
    using written_row [of "row_of (NDArray [r, c] fl) j" ?g] assms(5) m n
    by (simp add: stencil_row_def)
  then have "\<forall>j'. row_of (NDArray [r, c] ?fl') j'
                  = (if j' = j then stencil_row K (row_of data j) h
                     else row_of (NDArray [r, c] fl) j')"
    using row_of_fold_update [OF write_order_less [OF assms(5)], of r j ?g fl] by simp
  moreover have "length ?fl' = r * c" using assms(6) by simp
  ultimately show ?thesis
    using fill_row_flat [OF assms(1-5), of h fl] by blast
qed

lemma rows_loop:
  assumes "total5 K" and "shape data = [r, c]" and "length (flat data) = r * c" and "5 \<le> c"
    and "set js \<subseteq> {..<r}" and "length fl = r * c"
  shows "\<exists>fl'. for_loop js (fill_row K data h) (NDArray [r, c] fl) = Inr (NDArray [r, c] fl') \<and>
           length fl' = r * c \<and>
           (\<forall>j'. row_of (NDArray [r, c] fl') j'
                  = (if j' \<in> set js then stencil_row K (row_of data j') h
                     else row_of (NDArray [r, c] fl) j'))"
  using assms(5,6)
proof (induction js arbitrary: fl)
  case Nil
  then show ?case by simp
next
  case (Cons j js)
  then have j: "j < r" and rest: "set js \<subseteq> {..<r}" by auto
  from fill_row_rows [OF assms(1-3) j assms(4) Cons.prems(2), of h]
  obtain fl1 where 1: "fill_row K data h j (NDArray [r, c] fl) = Inr (NDArray [r, c] fl1)"
    and len1: "length fl1 = r * c"
    and rows1: "\<And>j'. row_of (NDArray [r, c] fl1) j'
                  = (if j' = j then stencil_row K (row_of data j) h
                     else row_of (NDArray [r, c] fl) j')"
    by blast
  from Cons.IH [OF rest len1]
  obtain fl2 where 2: "for_loop js (fill_row K data h) (NDArray [r, c] fl1) = Inr (NDArray [r, c] fl2)"
    and len2: "length fl2 = r * c"
    and rows2: "\<And>j'. row_of (NDArray [r, c] fl2) j'
                  = (if j' \<in> set js then stencil_row K (row_of data j') h
                     else row_of (NDArray [r, c] fl1) j')"
    by blast
  have "for_loop (j # js) (fill_row K data h) (NDArray [r, c] fl) = Inr (NDArray [r, c] fl2)"
    by (simp add: 1 2)
  moreover have "\<forall>j'. row_of (NDArray [r, c] fl2) j'
                  = (if j' \<in> set (j # js) then stencil_row K (row_of data j') h
                     else row_of (NDArray [r, c] fl) j')"
    by (simp add: rows1 rows2)
  ultimately show ?case using len2 by blast
qed

lemma fill_2d_rows:
  assumes "total5 K" and "shape data = [r, c]" and "length (flat data) = r * c" and "5 \<le> c"
    and "length fl = r * c"
  shows "\<exists>fl'. fill_2d K data h (NDArray [r, c] fl) = Inr (NDArray [r, c] fl') \<and>
           length fl' = r * c \<and>
           (\<forall>j < r. row_of (NDArray [r, c] fl') j = stencil_row K (row_of data j) h)"
proof -
  have "set [0..<r] \<subseteq> {..<r}" by auto
  from rows_loop [OF assms(1-4) this assms(5), of h]
  show ?thesis using assms(2) by (auto simp add: fill_2d_def)
qed


subsection \<open>Transposition\<close>

lemma shape_transpose_nd: "shape a = [r, c] \<Longrightarrow> shape (transpose_nd a) = [c, r]"
  by (simp add: transpose_nd_def)

lemma length_concat_rows: "length (concat (map (\<lambda>j. map (g j) [0..<r]) js)) = length js * r"
  by (induction js) simp_all

lemma length_flat_transpose_nd: "shape a = [r, c] \<Longrightarrow> length (flat (transpose_nd a)) = c * r"
  by (simp add: transpose_nd_def length_concat_rows)

subsection \<open>Shapes are kept by the loops\<close>

lemma same_size_refl [simp]: "same_size a a"
  by (simp add: same_size_def)

lemma same_size_trans: "same_size a b \<Longrightarrow> same_size b c \<Longrightarrow> same_size a c"
  by (simp add: same_size_def)

lemma for_loop_same_size:
  assumes "\<And>i s s'. body i s = Inr s' \<Longrightarrow> same_size s s'"
    and "for_loop is body s = Inr s'"
  shows "same_size s s'"
  using assms(2)
proof (induction "is" arbitrary: s)
  case Nil
  then show ?case by simp
next
  case (Cons i "is")
  then obtain s1 where "body i s = Inr s1" and "for_loop is body s1 = Inr s'"
    by (auto simp add: bind_res_eq_Inr)
  then show ?case
    using assms(1) Cons.IH same_size_trans by blast
qed

lemma setitem1_same_size: "setitem1 out i v = Inr out' \<Longrightarrow> same_size out out'"
  by (auto simp add: setitem1_def bind_res_eq_Inr same_size_def)

lemma setitem2_same_size: "setitem2 out j i v = Inr out' \<Longrightarrow> same_size out out'"
  by (auto simp add: setitem2_def bind_res_eq_Inr same_size_def)

lemma fill_1d_same_size:
  assumes "fill_1d K data h out = Inr out'"
  shows "same_size out out'"
proof -
  from assms obtain o1 o2 o3 o4 v1 v2 v3 v4 where
    "setitem1 out 0 v1 = Inr o1" "setitem1 o1 1 v2 = Inr o2"
    "setitem1 o2 (- 2) v3 = Inr o3" "setitem1 o3 (- 1) v4 = Inr o4"
    and loop: "for_loop [2..<shape data ! 0 - 2]
       (\<lambda>i out.
          bind_res (Centered K (py_slice (flat data) (int i - 2) (Some (int i + 3))) h)
            (\<lambda>v. setitem1 out (int i) v)) o4 = Inr out'"
    unfolding fill_1d_def bind_res_eq_Inr by blast
  then have "same_size out o4"
    by (blast intro: same_size_trans dest: setitem1_same_size)
  moreover have "same_size o4 out'"
    using loop
    by (rule for_loop_same_size [rotated]) (auto simp add: bind_res_eq_Inr dest: setitem1_same_size)
  ultimately show ?thesis by (rule same_size_trans)
qed

lemma fill_row_same_size:
  assumes "fill_row K data h j out = Inr out'"
  shows "same_size out out'"
proof -
  from assms obtain o1 o2 o3 o4 v1 v2 v3 v4 where
    "setitem2 out (int j) 0 v1 = Inr o1" "setitem2 o1 (int j) 1 v2 = Inr o2"
    "setitem2 o2 (int j) (- 2) v3 = Inr o3" "setitem2 o3 (int j) (- 1) v4 = Inr o4"
    and loop: "for_loop [2..<shape data ! 1 - 2]
       (\<lambda>i out.
          bind_res (getitem_row_slice data (int j) (int i - 2) (Some (int i + 3))) (\<lambda>p.
          bind_res (Centered K p h) (\<lambda>v.
          setitem2 out (int j) (int i) v))) o4 = Inr out'"
    unfolding fill_row_def bind_res_eq_Inr by blast
  then have "same_size out o4"
    by (blast intro: same_size_trans dest: setitem2_same_size)
  moreover have "same_size o4 out'"
    using loop
    by (rule for_loop_same_size [rotated]) (auto simp add: bind_res_eq_Inr dest: setitem2_same_size)
  ultimately show ?thesis by (rule same_size_trans)
qed

lemma fill_2d_same_size: "fill_2d K data h out = Inr out' \<Longrightarrow> same_size out out'"
  unfolding fill_2d_def by (rule for_loop_same_size [rotated]) (auto dest: fill_row_same_size)


subsection \<open>The two parts of the body\<close>

lemma validate_Inr:
  assumes "validate data axis = Inr (d1, b)"
  shows "\<exists>a. data = Ndarray a \<and> (length (shape a) = 1 \<or> length (shape a) = 2) \<and>
           (axis = - 1 \<or> axis = 0) \<and> b = (length (shape a) = 2 \<and> axis = 0) \<and>
           d1 = (if b then transpose_nd a else a) \<and> 10 \<le> last (shape d1)"
  using assms
  by (cases data)
    (auto simp add: validate_def check_axis_def bind_res_eq_Inr Let_def split: if_splits)

lemma rank_2: "length s = 2 \<Longrightarrow> \<exists>r c. s = [r, c]"
  by (cases s; cases "tl s") auto

lemma rank_1: "length s = 1 \<Longrightarrow> \<exists>n. s = [n]"
  by (cases s) auto

lemma differentiate_same_size:
  assumes "differentiate K d1 b h = Inr out"
  shows "\<exists>out2. same_size d1 out2 \<and> out = (if b then transpose_nd out2 else out2)"
proof -
  let ?out0 = "NDArray (shape d1) (map (\<lambda>x. - 100 + 0 * x) (flat d1))"
  from assms obtain o1 o2 where
    1: "(if length (shape d1) = 1 then fill_1d K d1 h ?out0 else Inr ?out0) = Inr o1"
    and 2: "(if length (shape d1) = 2 then fill_2d K d1 h o1 else Inr o1) = Inr o2"
    and 3: "out = (if b then transpose_nd o2 else o2)"
    unfolding differentiate_def Let_def bind_res_eq_Inr by auto
  have "same_size d1 ?out0" by (simp add: same_size_def)
  moreover have "same_size ?out0 o1"
    using 1 by (auto split: if_splits dest: fill_1d_same_size)
  moreover have "same_size o1 o2"
    using 2 by (auto split: if_splits dest: fill_2d_same_size)
  ultimately have "same_size d1 o2" by (blast intro: same_size_trans)
  then show ?thesis using 3 by blast
qed

lemma differentiate_1d:
  assumes "total5 K" and "shape d = [n]" and "length (flat d) = n" and "5 \<le> n"
  shows "differentiate K d b h = Inr (NDArray [n] (stencil_row K (flat d) h))"
  using assms(2) fill_1d_row [OF assms(1-3) _ assms(4), of "map (\<lambda>x. - 100 + 0 * x) (flat d)" h]
    assms(3)
  by (simp add: differentiate_def transpose_nd_def Let_def)

lemma differentiate_2d:
  assumes "total5 K" and "shape d = [r, c]" and "length (flat d) = r * c" and "5 \<le> c"
  shows "\<exists>fl'. length fl' = r * c \<and>
           (\<forall>j < r. row_of (NDArray [r, c] fl') j = stencil_row K (row_of d j) h) \<and>
           (\<forall>b. differentiate K d b h
                = Inr (if b then transpose_nd (NDArray [r, c] fl') else NDArray [r, c] fl'))"
proof -
  have "length (map (\<lambda>x. - 100 + 0 * x) (flat d)) = r * c" using assms(3) by simp
  from fill_2d_rows [OF assms this, of h]
  obtain fl' where "fill_2d K d h (NDArray [r, c] (map (\<lambda>x. - 100 + 0 * x) (flat d)))
                    = Inr (NDArray [r, c] fl')"
    and "length fl' = r * c"
    and "\<forall>j < r. row_of (NDArray [r, c] fl') j = stencil_row K (row_of d j) h"
    by blast
  then show ?thesis
    using assms(2) by (intro exI [of _ fl']) (simp add: differentiate_def Let_def)
qed

lemma validated_wf:
  assumes "validate (Ndarray a) axis = Inr (d1, b)" and "wf a"
  shows "(\<exists>n. shape d1 = [n] \<and> length (flat d1) = n \<and> 10 \<le> n) \<or>
         (\<exists>r c. shape d1 = [r, c] \<and> length (flat d1) = r * c \<and> 10 \<le> c)"
proof -
  from validate_Inr [OF assms(1)]
  have rank: "length (shape a) = 1 \<or> length (shape a) = 2"
    and b: "b = (length (shape a) = 2 \<and> axis = 0)"
    and d1: "d1 = (if b then transpose_nd a else a)"
    and ten: "10 \<le> last (shape d1)"
    by auto
  show ?thesis
  proof (cases b)
    case True
    then obtain r c where s: "shape a = [r, c]" using b rank_2 by blast
    then show ?thesis
      using True d1 ten by (simp add: shape_transpose_nd length_flat_transpose_nd)
  next
    case False
    from rank show ?thesis
    proof
      assume "length (shape a) = 1"
      then obtain n where "shape a = [n]" using rank_1 by blast
      then show ?thesis using False d1 ten assms(2) by (simp add: wf_def)
    next
      assume "length (shape a) = 2"
      then obtain r c where "shape a = [r, c]" using rank_2 by blast
      then show ?thesis using False d1 ten assms(2) by (simp add: wf_def)
    qed
  qed
qed

lemma differentiate_returns:
  assumes "total5 K" and "validate (Ndarray a) axis = Inr (d1, b)" and "wf a"
  shows "\<exists>out. differentiate K d1 b h = Inr out"
  using validated_wf [OF assms(2,3)]
proof (elim disjE exE conjE)
  fix n assume "shape d1 = [n]" "length (flat d1) = n" "10 \<le> n"
  then show ?thesis using differentiate_1d [OF assms(1), of d1 n b h] by simp
next
  fix r c assume "shape d1 = [r, c]" "length (flat d1) = r * c" "10 \<le> c"
  then show ?thesis using differentiate_2d [OF assms(1), of d1 r c h] by auto
qed

lemma five_point_errors:
  assumes "total5 K" and "wf a"
  shows "(five_point K (Ndarray a) h axis = Inl e) = (validate (Ndarray a) axis = Inl e)"
proof (cases "validate (Ndarray a) axis")
  case (Inl e')
  then show ?thesis by (simp add: five_point_def)
next
  case (Inr p)
  obtain d1 b where p: "p = (d1, b)" by (cases p)
  from differentiate_returns [OF assms(1) Inr [unfolded p] assms(2), of h]
  show ?thesis using Inr p by (auto simp add: five_point_def)
qed

subsection \<open>What a call returns\<close>





subsection \<open>The kernels on sampled quadratics\<close>

lemma window_samples:
  assumes "m + 5 \<le> n"
  shows "take 5 (drop m (samples f x0 h n))
         = window5 f (x0 + real m * h) h"
proof -
  have "[m..<m + 5] = [m, m + 1, m + 2, m + 3, m + 4]"
    by (simp add: numeral_eq_Suc)
  moreover have "take 5 (drop m [0..<n]) = [m..<m + 5]"
    using assms by (simp add: take_upt)
  ultimately have "take 5 (drop m [0..<n]) = [m, m + 1, m + 2, m + 3, m + 4]"
    by simp
  then have "take 5 (drop m (samples f x0 h n))
             = map (\<lambda>i. f (x0 + real i * h)) [m, m + 1, m + 2, m + 3, m + 4]"
    by (simp add: samples_def take_map drop_map)
  then show ?thesis by (simp add: window5_def algebra_simps)
qed

lemma D1_kernels_quadratic:
  assumes "h \<noteq> 0"
  shows "D1_Five_Point_Stencil_Forward (window5 (quadratic a b c) t h) h = Inr (b + 2 * c * t)"
    and "D1_Five_Point_Stencil_Assymmetric_F (window5 (quadratic a b c) t h) h = Inr (b + 2 * c * (t + h))"
    and "D1_Five_Point_Stencil (window5 (quadratic a b c) t h) h = Inr (b + 2 * c * (t + 2 * h))"
    and "D1_Five_Point_Stencil_Assymmetric_B (window5 (quadratic a b c) t h) h = Inr (b + 2 * c * (t + 3 * h))"
    and "D1_Five_Point_Stencil_Backward (window5 (quadratic a b c) t h) h = Inr (b + 2 * c * (t + 4 * h))"
  using assms(1)
  by (simp_all add: window5_def quadratic_def D1_Five_Point_Stencil_def
      D1_Five_Point_Stencil_Assymmetric_F_def D1_Five_Point_Stencil_Assymmetric_B_def
      D1_Five_Point_Stencil_Forward_def D1_Five_Point_Stencil_Backward_def
      field_simps power2_eq_square)

lemma D2_kernels_quadratic:
  assumes "h \<noteq> 0"
  shows "D2_Five_Point_Stencil_Forward (window5 (quadratic a b c) t h) h = Inr (2 * c)"
    and "D2_Five_Point_Stencil_Assymmetric_F (window5 (quadratic a b c) t h) h = Inr (2 * c)"
    and "D2_Five_Point_Stencil (window5 (quadratic a b c) t h) h = Inr (2 * c)"
    and "D2_Five_Point_Stencil_Assymmetric_B (window5 (quadratic a b c) t h) h = Inr (2 * c)"
    and "D2_Five_Point_Stencil_Backward (window5 (quadratic a b c) t h) h = Inr (2 * c)"
  using assms(1)
  by (simp_all add: window5_def quadratic_def D2_Five_Point_Stencil_def
      D2_Five_Point_Stencil_Assymmetric_F_def D2_Five_Point_Stencil_Assymmetric_B_def
      D2_Five_Point_Stencil_Forward_def D2_Five_Point_Stencil_Backward_def
      field_simps power2_eq_square)


lemma length_samples [simp]: "length (samples f x0 h n) = n"
  by (simp add: samples_def)

lemma first_window_samples:
  "5 \<le> n \<Longrightarrow> take 5 (samples f x0 h n) = window5 f x0 h"
  using window_samples [of 0 n f x0 h] by simp

lemma last_window_samples:
  assumes "5 \<le> n"
  shows "drop (n - 5) (samples f x0 h n) = window5 f (x0 + real (n - 5) * h) h"
proof -
  have "drop (n - 5) (samples f x0 h n) = take 5 (drop (n - 5) (samples f x0 h n))"
    using assms by simp
  then show ?thesis using window_samples [of "n - 5" n f x0 h] assms by simp
qed

lemma cell_D1_quadratic:
  assumes "5 \<le> n" and "h \<noteq> 0" and "i < n"
  shows "cell D1_kernels (samples (quadratic a b c) x0 h n) h i = b + 2 * c * (x0 + real i * h)"
proof -
  consider "i = 0" | "i = 1" | "i = n - 2" | "i = n - 1" | "2 \<le> i" "i < n - 2"
    using assms(3) by arith
  then show ?thesis
  proof cases
    case 1
    then show ?thesis
      using assms(1,2)
      by (simp add: cell_def D1_kernels_def first_window_samples D1_kernels_quadratic)
  next
    case 2
    then show ?thesis
      using assms(1,2)
      by (simp add: cell_def D1_kernels_def first_window_samples D1_kernels_quadratic)
  next
    case 3
    have "real (n - 5) * h + 3 * h = real (n - 2) * h"
      using assms(1) by (simp add: of_nat_diff algebra_simps)
    then have "x0 + real (n - 5) * h + 3 * h = x0 + real (n - 2) * h" by simp
    then show ?thesis
      using 3 assms(1,2) cell_n2 [of "samples (quadratic a b c) x0 h n" D1_kernels h]
      by (simp add: D1_kernels_def last_window_samples D1_kernels_quadratic)
  next
    case 4
    have "real (n - 5) * h + 4 * h = real (n - 1) * h"
      using assms(1) by (simp add: of_nat_diff algebra_simps)
    then have "x0 + real (n - 5) * h + 4 * h = x0 + real (n - 1) * h" by simp
    then show ?thesis
      using 4 assms(1,2) cell_n1 [of "samples (quadratic a b c) x0 h n" D1_kernels h]
      by (simp add: D1_kernels_def last_window_samples D1_kernels_quadratic)
  next
    case 5
    have "real (i - 2) * h + 2 * h = real i * h"
      using 5 by (simp add: of_nat_diff algebra_simps)
    then have "x0 + real (i - 2) * h + 2 * h = x0 + real i * h" by simp
    moreover have "i - 2 + 5 \<le> n" using 5 by arith
    ultimately show ?thesis
      using 5 assms(2)
      by (simp add: cell_mid D1_kernels_def window_samples D1_kernels_quadratic)
  qed
qed

lemma cell_D2_quadratic:
  assumes "5 \<le> n" and "h \<noteq> 0" and "i < n"
  shows "cell D2_kernels (samples (quadratic a b c) x0 h n) h i = 2 * c"
proof -
  consider "i = 0" | "i = 1" | "i = n - 2" | "i = n - 1" | "2 \<le> i" "i < n - 2"
    using assms(3) by arith
  then show ?thesis
  proof cases
    case 1
    then show ?thesis
      using assms(1,2)
      by (simp add: cell_def D2_kernels_def first_window_samples D2_kernels_quadratic)
  next
    case 2
    then show ?thesis
      using assms(1,2)
      by (simp add: cell_def D2_kernels_def first_window_samples D2_kernels_quadratic)
  next
    case 3
    then show ?thesis
      using assms(1,2) cell_n2 [of "samples (quadratic a b c) x0 h n" D2_kernels h]
      by (simp add: D2_kernels_def last_window_samples D2_kernels_quadratic)
  next
    case 4
    then show ?thesis
      using assms(1,2) cell_n1 [of "samples (quadratic a b c) x0 h n" D2_kernels h]
      by (simp add: D2_kernels_def last_window_samples D2_kernels_quadratic)
  next
    case 5
    then have "i - 2 + 5 \<le> n" by arith
    then show ?thesis
      using 5 assms(2)
      by (simp add: cell_mid D2_kernels_def window_samples D2_kernels_quadratic)
  qed
qed

lemma stencil_row_D1_quadratic:
  assumes "5 \<le> n" and "h \<noteq> 0"
  shows "stencil_row D1_kernels (samples (quadratic a b c) x0 h n) h
         = map (\<lambda>i. b + 2 * c * (x0 + real i * h)) [0..<n]"
  using assms by (simp add: stencil_row_def cell_D1_quadratic)

lemma stencil_row_D2_quadratic:
  assumes "5 \<le> n" and "h \<noteq> 0"
  shows "stencil_row D2_kernels (samples (quadratic a b c) x0 h n) h = replicate n (2 * c)"
proof -
  have "map (cell D2_kernels (samples (quadratic a b c) x0 h n) h) [0..<n]
        = map (\<lambda>i. 2 * c) [0..<n]"
    using assms by (simp add: cell_D2_quadratic)
  then show ?thesis by (simp add: stencil_row_def map_replicate_const)
qed

lemma validate_1d:
  "10 \<le> length xs \<Longrightarrow>
   validate (Ndarray (NDArray [length xs] xs)) (- 1) = Inr (NDArray [length xs] xs, False)"
  by (simp add: validate_def check_axis_def)

lemma D1_5_quadratic:
  assumes "10 \<le> n" and "h \<noteq> 0"
  shows "D1_5 (Ndarray (NDArray [n] (samples (quadratic a b c) x0 h n))) h (- 1)
         = Inr (NDArray [n] (map (\<lambda>i. b + 2 * c * (x0 + real i * h)) [0..<n]))"
proof -
  let ?xs = "samples (quadratic a b c) x0 h n"
  have "validate (Ndarray (NDArray [n] ?xs)) (- 1) = Inr (NDArray [n] ?xs, False)"
    using validate_1d [of ?xs] assms(1) by simp
  moreover have "differentiate D1_kernels (NDArray [n] ?xs) False h
                 = Inr (NDArray [n] (stencil_row D1_kernels ?xs h))"
    using differentiate_1d [OF total5_D1, of "NDArray [n] ?xs" n False h] assms(1) by simp
  ultimately show ?thesis
    using assms by (simp add: D1_5_def five_point_def stencil_row_D1_quadratic)
qed

lemma D2_5_quadratic:
  assumes "10 \<le> n" and "h \<noteq> 0"
  shows "D2_5 (Ndarray (NDArray [n] (samples (quadratic a b c) x0 h n))) h (- 1)
         = Inr (NDArray [n] (replicate n (2 * c)))"
proof -
  let ?xs = "samples (quadratic a b c) x0 h n"
  have "validate (Ndarray (NDArray [n] ?xs)) (- 1) = Inr (NDArray [n] ?xs, False)"
    using validate_1d [of ?xs] assms(1) by simp
  moreover have "differentiate D2_kernels (NDArray [n] ?xs) False h
                 = Inr (NDArray [n] (stencil_row D2_kernels ?xs h))"
    using differentiate_1d [OF total5_D2, of "NDArray [n] ?xs" n False h] assms(1) by simp
  ultimately show ?thesis
    using assms by (simp add: D2_5_def five_point_def stencil_row_D2_quadratic)
qed

section \<open>The claims\<close>

subsection \<open>Low sample counts\<close>

text \<open>
  For an array of rank one or two and an axis selector \<open>-1\<close> or \<open>0\<close>, five to nine
  samples along the differentiation axis end every call at the \<open>raise Warning\<close> of
  line 166 (line 348).
\<close>

lemma low_sample_raises:
  assumes "length (shape a) = 1 \<or> length (shape a) = 2"
    and "axis = - 1 \<or> axis = 0"
    and "5 \<le> (if axis = 0 then hd (shape a) else last (shape a))"
    and "(if axis = 0 then hd (shape a) else last (shape a)) < 10"
  shows "D1_5 (Ndarray a) step axis = Inl Warning_half_data \<and>
         D2_5 (Ndarray a) step axis = Inl Warning_half_data"
proof -
  have "validate (Ndarray a) axis = Inl Warning_half_data"
    using assms(1)
  proof
    assume "length (shape a) = 1"
    then obtain n where "shape a = [n]" using rank_1 by blast
    then show ?thesis
      using assms(2,3,4) by (auto simp add: validate_def check_axis_def)
  next
    assume "length (shape a) = 2"
    then obtain r c where "shape a = [r, c]" using rank_2 by blast
    then show ?thesis
      using assms(2,3,4) by (auto simp add: validate_def check_axis_def shape_transpose_nd)
  qed
  then show ?thesis by (simp add: D1_5_def D2_5_def five_point_def)
qed

text \<open>
  Claim C1. On seven samples along the differentiation axis the source does not return:
  line 166 (line 348 in \<open>D2_5\<close>) raises the exception class \<open>Warning\<close> with the advisory
  text, so both \<open>D1_5\<close> and \<open>D2_5\<close> end with that exception and no derivative array is
  produced.
\<close>

theorem low_sample_call_raises:
  "D1_5 (Ndarray (NDArray [7] [0, 1, 2, 3, 4, 5, 6])) 1 (- 1) = Inl Warning_half_data \<and>
   D2_5 (Ndarray (NDArray [7] [0, 1, 2, 3, 4, 5, 6])) 1 (- 1) = Inl Warning_half_data"
  by code_simp

subsection \<open>The axis selector on two-dimensional data\<close>

text \<open>On every two-dimensional array \<open>axis = 1\<close> ends the call in the \<open>else\<close> branch of line 155.\<close>

lemma axis_1_on_2d_always_raises:
  assumes "length (shape a) = 2"
  shows "D1_5 (Ndarray a) step 1 = Inl ValueError_axis_value \<and>
         D2_5 (Ndarray a) step 1 = Inl ValueError_axis_value"
proof -
  have "validate (Ndarray a) 1 = Inl ValueError_axis_value"
    using assms by (simp add: validate_def check_axis_def)
  then show ?thesis by (simp add: D1_5_def D2_5_def five_point_def)
qed

text \<open>
  Claim C2. On a two-dimensional array of shape (2, 10) the call with \<open>axis = 1\<close> falls
  through the \<open>elif\<close> chain to its \<open>else\<close> branch and raises the ValueError whose
  message lists 1 among the permitted values, in \<open>D1_5\<close> and in \<open>D2_5\<close>; the same array
  with the default \<open>axis = -1\<close> is differentiated along its last axis.
\<close>

theorem axis_1_on_2d_raises:
  "D1_5 (Ndarray (NDArray [2, 10]
      [0, 1, 2, 3, 4, 5, 6, 7, 8, 9, 0, 2, 4, 6, 8, 10, 12, 14, 16, 18])) 1 1
     = Inl ValueError_axis_value \<and>
   D2_5 (Ndarray (NDArray [2, 10]
      [0, 1, 2, 3, 4, 5, 6, 7, 8, 9, 0, 2, 4, 6, 8, 10, 12, 14, 16, 18])) 1 1
     = Inl ValueError_axis_value \<and>
   D1_5 (Ndarray (NDArray [2, 10]
      [0, 1, 2, 3, 4, 5, 6, 7, 8, 9, 0, 2, 4, 6, 8, 10, 12, 14, 16, 18])) 1 (- 1)
     = Inr (NDArray [2, 10]
      [1, 1, 1, 1, 1, 1, 1, 1, 1, 1, 2, 2, 2, 2, 2, 2, 2, 2, 2, 2])"
  by code_simp

subsection \<open>Linear and quadratic data\<close>

text \<open>
  On ten or more samples of a quadratic \<open>a + b x + c x\<^sup>2\<close>, taken with a step \<open>h \<noteq> 0\<close>,
  \<open>D1_5\<close> returns \<open>b + 2 c x\<close> at every sample point and \<open>D2_5\<close> returns \<open>2 c\<close> everywhere
  (lemmas \<open>D1_5_quadratic\<close> and \<open>D2_5_quadratic\<close>; a linear sequence is the case
  \<open>c = 0\<close>). The instance of the specification is the linear sequence 0, 1, ..., 9.
\<close>

lemma D1_5_ten_linear_samples:
  "D1_5 (Ndarray (NDArray [10] [0, 1, 2, 3, 4, 5, 6, 7, 8, 9])) 1 (- 1)
     = Inr (NDArray [10] [1, 1, 1, 1, 1, 1, 1, 1, 1, 1])"
  by code_simp

text \<open>
  Claim C3. On the five samples 3, 5, 7, 9, 11 of the linear function \<open>3 + x\<close>, taken with
  step 2, \<open>D1_5\<close> and \<open>D2_5\<close> end with the exception of line 166 (line 348) and return
  nothing. The rest of the body, from line 169 on, gives the slope 1 at every index for
  the first derivative and 0 at every index for the second on these samples.
\<close>

theorem linear_five_samples_raise:
  "D1_5 (Ndarray (NDArray [5] [3, 5, 7, 9, 11])) 2 (- 1) = Inl Warning_half_data \<and>
   D2_5 (Ndarray (NDArray [5] [3, 5, 7, 9, 11])) 2 (- 1) = Inl Warning_half_data \<and>
   differentiate D1_kernels (NDArray [5] [3, 5, 7, 9, 11]) False 2
     = Inr (NDArray [5] [1, 1, 1, 1, 1]) \<and>
   differentiate D2_kernels (NDArray [5] [3, 5, 7, 9, 11]) False 2
     = Inr (NDArray [5] [0, 0, 0, 0, 0])"
  by code_simp

text \<open>
  Claim C4. On the six samples 1, 6, 17, 34, 57, 86 of the quadratic \<open>1 + 2 x + 3 x\<^sup>2\<close>,
  taken at 0, 1, ..., 5 with step 1, \<open>D2_5\<close> and \<open>D1_5\<close> end with the exception of
  line 348 (line 166) and return nothing. The rest of the body gives 6 at every index
  for the second derivative and \<open>2 + 6 x\<close> at every sample point for the first.
\<close>

theorem quadratic_six_samples_raise:
  "D2_5 (Ndarray (NDArray [6] [1, 6, 17, 34, 57, 86])) 1 (- 1) = Inl Warning_half_data \<and>
   D1_5 (Ndarray (NDArray [6] [1, 6, 17, 34, 57, 86])) 1 (- 1) = Inl Warning_half_data \<and>
   differentiate D2_kernels (NDArray [6] [1, 6, 17, 34, 57, 86]) False 1
     = Inr (NDArray [6] [6, 6, 6, 6, 6, 6]) \<and>
   differentiate D1_kernels (NDArray [6] [1, 6, 17, 34, 57, 86]) False 1
     = Inr (NDArray [6] [2, 8, 14, 20, 26, 32])"
  by code_simp

subsection \<open>The shape of the result\<close>

text \<open>
  Claim C5. Whenever \<open>D1_5\<close> or \<open>D2_5\<close> returns an array, the argument was an array and
  the result has its shape, whatever the rank and the axis; and the result holds as many
  elements as its shape says when the argument does.
\<close>

theorem output_shape:
  assumes "D1_5 data step axis = Inr out \<or> D2_5 data step axis = Inr out"
  shows "\<exists>a. data = Ndarray a \<and> shape out = shape a \<and> (wf a \<longrightarrow> wf out)"
proof -
  from assms obtain K where "five_point K data step axis = Inr out"
    unfolding D1_5_def D2_5_def by blast
  then obtain d1 b where v: "validate data axis = Inr (d1, b)"
    and d: "differentiate K d1 b step = Inr out"
    unfolding five_point_def bind_res_eq_Inr by auto
  from validate_Inr [OF v] obtain a where a: "data = Ndarray a"
    and b: "b = (length (shape a) = 2 \<and> axis = 0)"
    and d1: "d1 = (if b then transpose_nd a else a)"
    by blast
  from differentiate_same_size [OF d] obtain out2 where same: "same_size d1 out2"
    and out: "out = (if b then transpose_nd out2 else out2)"
    by blast
  have "shape out = shape a \<and> (wf a \<longrightarrow> wf out)"
  proof (cases b)
    case True
    then obtain r c where s: "shape a = [r, c]" using b rank_2 by blast
    then have "shape out2 = [c, r]"
      using True d1 same by (simp add: same_size_def shape_transpose_nd)
    then show ?thesis
      using True out s by (simp add: shape_transpose_nd length_flat_transpose_nd wf_def)
  next
    case False
    then show ?thesis using d1 out same by (simp add: same_size_def wf_def)
  qed
  then show ?thesis using a by blast
qed

text \<open>The theorem at an array of shape (10, 2) differentiated along its first axis.\<close>

theorem output_shape_witness:
  "D1_5 (Ndarray (NDArray [10, 2]
       [0, 0, 1, 2, 2, 4, 3, 6, 4, 8, 5, 10, 6, 12, 7, 14, 8, 16, 9, 18])) 1 0
     = Inr (NDArray [10, 2] [1, 2, 1, 2, 1, 2, 1, 2, 1, 2, 1, 2, 1, 2, 1, 2, 1, 2, 1, 2]) \<and>
   shape (NDArray [10, 2] [1, 2, 1, 2, 1, 2, 1, 2, 1, 2, 1, 2, 1, 2, 1, 2, 1, 2, 1, 2])
     = shape (NDArray [10, 2]
       [0, 0, 1, 2, 2, 4, 3, 6, 4, 8, 5, 10, 6, 12, 7, 14, 8, 16, 9, 18]) \<and>
   wf (NDArray [10, 2] [1, 2, 1, 2, 1, 2, 1, 2, 1, 2, 1, 2, 1, 2, 1, 2, 1, 2, 1, 2])"
proof -
  let ?a = "NDArray [10, 2]
       [0, 0, 1, 2, 2, 4, 3, 6, 4, 8, 5, 10, 6, 12, 7, 14, 8, 16, 9, 18]"
  let ?out = "NDArray [10, 2] [1, 2, 1, 2, 1, 2, 1, 2, 1, 2, 1, 2, 1, 2, 1, 2, 1, 2, 1, 2]"
  have run: "D1_5 (Ndarray ?a) 1 0 = Inr ?out" by code_simp
  have "wf ?a" by (simp add: wf_def)
  with output_shape [of "Ndarray ?a" 1 0 ?out] run show ?thesis by auto
qed

subsection \<open>Fewer than five samples\<close>

text \<open>
  For an array of rank one or two and an axis selector \<open>-1\<close> (last) or \<open>0\<close>
  (first), if the array has fewer than five samples along the differentiation axis (the
  first entry of the shape for \<open>axis = 0\<close>, the last one otherwise), then the checks that
  precede the computation already end with the exception "Cannot perform a stencil on
  fewer than 5 points!", and so do \<open>D1_5\<close> and \<open>D2_5\<close>: no array is produced.
\<close>

lemma too_few_samples:
  assumes "length (shape a) = 1 \<or> length (shape a) = 2"
    and "axis = - 1 \<or> axis = 0"
    and "(if axis = 0 then hd (shape a) else last (shape a)) < 5"
  shows "validate (Ndarray a) axis = Inl Exception_fewer_than_5 \<and>
         D1_5 (Ndarray a) step axis = Inl Exception_fewer_than_5 \<and>
         D2_5 (Ndarray a) step axis = Inl Exception_fewer_than_5"
proof -
  have "validate (Ndarray a) axis = Inl Exception_fewer_than_5"
    using assms(1)
  proof
    assume "length (shape a) = 1"
    then obtain n where "shape a = [n]" using rank_1 by blast
    then show ?thesis
      using assms(2,3) by (auto simp add: validate_def check_axis_def)
  next
    assume "length (shape a) = 2"
    then obtain r c where "shape a = [r, c]" using rank_2 by blast
    then show ?thesis
      using assms(2,3) by (auto simp add: validate_def check_axis_def shape_transpose_nd)
  qed
  then show ?thesis by (simp add: D1_5_def D2_5_def five_point_def)
qed

text \<open>The lemma at an array of four rows and twelve columns, along its first axis.\<close>

lemma too_few_samples_at_4_by_12:
  "length (shape (NDArray [4, 12] (replicate 48 1))) = 2 \<and>
   hd (shape (NDArray [4, 12] (replicate 48 1))) < 5 \<and>
   validate (Ndarray (NDArray [4, 12] (replicate 48 1))) 0 = Inl Exception_fewer_than_5 \<and>
   D1_5 (Ndarray (NDArray [4, 12] (replicate 48 1))) 1 0 = Inl Exception_fewer_than_5 \<and>
   D2_5 (Ndarray (NDArray [4, 12] (replicate 48 1))) 1 0 = Inl Exception_fewer_than_5"
  using too_few_samples [of "NDArray [4, 12] (replicate 48 1)" 0 1] by simp

text \<open>
  Claim C6. On an array of shape (10, 3), which has three samples along its last axis,
  the call with \<open>axis = 1\<close> does not reach the check on the number of samples: the
  \<open>else\<close> branch of line 155 (line 337) raises the ValueError on \<open>axis\<close>, in \<open>D1_5\<close> and
  in \<open>D2_5\<close>. The same array with \<open>axis = -1\<close> ends with "Cannot perform a stencil on
  fewer than 5 points!".
\<close>

theorem few_columns_axis_1_raises:
  "D1_5 (Ndarray (NDArray [10, 3] (replicate 30 1))) 1 1 = Inl ValueError_axis_value \<and>
   D2_5 (Ndarray (NDArray [10, 3] (replicate 30 1))) 1 1 = Inl ValueError_axis_value \<and>
   D1_5 (Ndarray (NDArray [10, 3] (replicate 30 1))) 1 (- 1) = Inl Exception_fewer_than_5 \<and>
   D2_5 (Ndarray (NDArray [10, 3] (replicate 30 1))) 1 (- 1) = Inl Exception_fewer_than_5"
  by code_simp

subsection \<open>The axis selector on one-dimensional data\<close>

text \<open>
  Claim C7, as stated, fails: on a one-dimensional array of ten samples the call with
  \<open>axis = 0\<close> is accepted by the branch \<open>elif axis==0: pass\<close> and returns the derivative.
\<close>

theorem axis_0_on_1d_accepted:
  "D1_5 (Ndarray (NDArray [10] [0, 1, 4, 9, 16, 25, 36, 49, 64, 81])) 1 0
     = Inr (NDArray [10] [0, 2, 4, 6, 8, 10, 12, 14, 16, 18]) \<and>
   D2_5 (Ndarray (NDArray [10] [0, 1, 4, 9, 16, 25, 36, 49, 64, 81])) 1 0
     = Inr (NDArray [10] [2, 2, 2, 2, 2, 2, 2, 2, 2, 2])"
  by code_simp

text \<open>
  Claim C7, amended. For every one-dimensional array, \<open>axis = 1\<close> makes \<open>D1_5\<close> and \<open>D2_5\<close>
  fail with the ValueError "'axis' can only be equal to 1 for two-dimensional data";
  \<open>axis = 0\<close> is accepted and gives what the default \<open>axis = -1\<close> gives.
\<close>

theorem axis_on_1d:
  assumes "length (shape a) = 1"
  shows "D1_5 (Ndarray a) step 1 = Inl ValueError_axis_1 \<and>
         D2_5 (Ndarray a) step 1 = Inl ValueError_axis_1 \<and>
         D1_5 (Ndarray a) step 0 = D1_5 (Ndarray a) step (- 1) \<and>
         D2_5 (Ndarray a) step 0 = D2_5 (Ndarray a) step (- 1)"
proof -
  have "validate (Ndarray a) 1 = Inl ValueError_axis_1"
    using assms by (simp add: validate_def check_axis_def)
  moreover have "validate (Ndarray a) 0 = validate (Ndarray a) (- 1)"
    using assms by (simp add: validate_def check_axis_def)
  ultimately show ?thesis by (simp add: D1_5_def D2_5_def five_point_def)
qed

theorem axis_on_1d_witness:
  "length (shape (NDArray [10] [0, 1, 4, 9, 16, 25, 36, 49, 64, 81])) = 1 \<and>
   D1_5 (Ndarray (NDArray [10] [0, 1, 4, 9, 16, 25, 36, 49, 64, 81])) 1 1
     = Inl ValueError_axis_1 \<and>
   D2_5 (Ndarray (NDArray [10] [0, 1, 4, 9, 16, 25, 36, 49, 64, 81])) 1 1
     = Inl ValueError_axis_1 \<and>
   D1_5 (Ndarray (NDArray [10] [0, 1, 4, 9, 16, 25, 36, 49, 64, 81])) 1 0
     = D1_5 (Ndarray (NDArray [10] [0, 1, 4, 9, 16, 25, 36, 49, 64, 81])) 1 (- 1)"
  using axis_on_1d [of "NDArray [10] [0, 1, 4, 9, 16, 25, 36, 49, 64, 81]" 1] by simp

subsection \<open>The two axes of a two-dimensional array\<close>

text \<open>
  For every two-dimensional array, the call along the first axis and the call on the
  transpose along the last axis end alike: with the same exception, or with two arrays
  that are transposes of one another (the result of the first call has the shape of the
  array).
\<close>

lemma differentiate_rotated:
  "differentiate K d True h = map_sum id transpose_nd (differentiate K d False h)"
  by (simp add: differentiate_def Let_def bind_res_def split: sum.splits)

lemma transpose_consistency_every_size:
  assumes "shape a = [r, c]"
  shows "D1_5 (Ndarray a) step 0
           = map_sum id transpose_nd (D1_5 (Ndarray (transpose_nd a)) step (- 1)) \<and>
         D2_5 (Ndarray a) step 0
           = map_sum id transpose_nd (D2_5 (Ndarray (transpose_nd a)) step (- 1))"
proof -
  let ?t = "transpose_nd a"
  have st: "shape ?t = [c, r]" using assms by (rule shape_transpose_nd)
  have "five_point K (Ndarray a) step 0
        = map_sum id transpose_nd (five_point K (Ndarray ?t) step (- 1))" for K
    using assms st
    by (simp add: five_point_def validate_def check_axis_def differentiate_rotated)
  then show ?thesis by (simp add: D1_5_def D2_5_def)
qed

text \<open>
  With at least ten samples along the first axis both calls return: \<open>D1_5\<close> on the
  transpose with \<open>axis = -1\<close> returns an array, and \<open>D1_5\<close> on the array itself with
  \<open>axis = 0\<close> returns the transpose of that array; likewise \<open>D2_5\<close>.
\<close>

lemma transpose_consistency:
  assumes "shape a = [r, c]" and "wf a" and "10 \<le> r"
  shows "(\<exists>out. D1_5 (Ndarray (transpose_nd a)) step (- 1) = Inr out \<and>
                D1_5 (Ndarray a) step 0 = Inr (transpose_nd out)) \<and>
         (\<exists>out. D2_5 (Ndarray (transpose_nd a)) step (- 1) = Inr out \<and>
                D2_5 (Ndarray a) step 0 = Inr (transpose_nd out))"
proof -
  let ?t = "transpose_nd a"
  have st: "shape ?t = [c, r]" and lt: "length (flat ?t) = c * r"
    using assms(1) by (simp_all add: shape_transpose_nd length_flat_transpose_nd)
  have v0: "validate (Ndarray a) 0 = Inr (?t, True)"
    using assms(1,3) st by (simp add: validate_def check_axis_def)
  have v1: "validate (Ndarray ?t) (- 1) = Inr (?t, False)"
    using assms(3) st by (simp add: validate_def check_axis_def)
  have "\<exists>out. five_point K (Ndarray ?t) step (- 1) = Inr out \<and>
              five_point K (Ndarray a) step 0 = Inr (transpose_nd out)"
    if "total5 K" for K
  proof -
    from differentiate_2d [OF that st lt, of step] assms(3)
    obtain fl' where "\<forall>b. differentiate K ?t b step
        = Inr (if b then transpose_nd (NDArray [c, r] fl') else NDArray [c, r] fl')"
      by auto
    then show ?thesis
      by (intro exI [of _ "NDArray [c, r] fl'"]) (simp add: five_point_def v0 v1)
  qed
  from this [OF total5_D1] this [OF total5_D2] show ?thesis
    by (simp add: D1_5_def D2_5_def)
qed

lemma transpose_consistency_at_10_by_2:
  "shape (NDArray [10, 2]
       [0, 0, 1, 2, 2, 4, 3, 6, 4, 8, 5, 10, 6, 12, 7, 14, 8, 16, 9, 18]) = [10, 2] \<and>
   wf (NDArray [10, 2]
       [0, 0, 1, 2, 2, 4, 3, 6, 4, 8, 5, 10, 6, 12, 7, 14, 8, 16, 9, 18]) \<and>
   (\<exists>out. D1_5 (Ndarray (transpose_nd (NDArray [10, 2]
       [0, 0, 1, 2, 2, 4, 3, 6, 4, 8, 5, 10, 6, 12, 7, 14, 8, 16, 9, 18]))) 1 (- 1) = Inr out \<and>
     D1_5 (Ndarray (NDArray [10, 2]
       [0, 0, 1, 2, 2, 4, 3, 6, 4, 8, 5, 10, 6, 12, 7, 14, 8, 16, 9, 18])) 1 0
       = Inr (transpose_nd out))"
  using transpose_consistency [of "NDArray [10, 2]
       [0, 0, 1, 2, 2, 4, 3, 6, 4, 8, 5, 10, 6, 12, 7, 14, 8, 16, 9, 18]" 10 2 1]
  by (simp add: wf_def)

text \<open>
  Claim C8. On an array of shape (7, 2), which has seven samples along its first axis,
  neither call returns a result: \<open>D1_5\<close> and \<open>D2_5\<close> with \<open>axis = 0\<close>, and the same
  functions on the transpose with \<open>axis = -1\<close>, all end with the exception of line 166
  (line 348). The rest of the body gives, on the transposed data, two arrays that are
  transposes of one another.
\<close>

theorem transposed_calls_raise_on_seven_rows:
  "D1_5 (Ndarray (NDArray [7, 2] [0, 0, 1, 2, 2, 4, 3, 6, 4, 8, 5, 10, 6, 12])) 1 0
     = Inl Warning_half_data \<and>
   D1_5 (Ndarray (transpose_nd
          (NDArray [7, 2] [0, 0, 1, 2, 2, 4, 3, 6, 4, 8, 5, 10, 6, 12]))) 1 (- 1)
     = Inl Warning_half_data \<and>
   D2_5 (Ndarray (NDArray [7, 2] [0, 0, 1, 2, 2, 4, 3, 6, 4, 8, 5, 10, 6, 12])) 1 0
     = Inl Warning_half_data \<and>
   D2_5 (Ndarray (transpose_nd
          (NDArray [7, 2] [0, 0, 1, 2, 2, 4, 3, 6, 4, 8, 5, 10, 6, 12]))) 1 (- 1)
     = Inl Warning_half_data \<and>
   differentiate D1_kernels
      (transpose_nd (NDArray [7, 2] [0, 0, 1, 2, 2, 4, 3, 6, 4, 8, 5, 10, 6, 12])) True 1
     = Inr (NDArray [7, 2] [1, 2, 1, 2, 1, 2, 1, 2, 1, 2, 1, 2, 1, 2]) \<and>
   differentiate D1_kernels
      (transpose_nd (NDArray [7, 2] [0, 0, 1, 2, 2, 4, 3, 6, 4, 8, 5, 10, 6, 12])) False 1
     = Inr (NDArray [2, 7] [1, 1, 1, 1, 1, 1, 1, 2, 2, 2, 2, 2, 2, 2])"
  by code_simp

subsection \<open>The step\<close>



subsection \<open>Rows do not influence one another\<close>

text \<open>
  Claim C10. For two two-dimensional arrays of one shape that agree on row \<open>j\<close>, the
  arrays that \<open>D1_5\<close> returns for them along the last axis agree on row \<open>j\<close>, and so do
  the arrays that \<open>D2_5\<close> returns.
\<close>

theorem rows_independent:
  assumes "shape a = [r, c]" and "shape b = [r, c]" and "wf a" and "wf b"
    and "j < r" and "row_of a j = row_of b j"
  shows "(\<forall>oa ob. D1_5 (Ndarray a) step (- 1) = Inr oa \<longrightarrow>
                   D1_5 (Ndarray b) step (- 1) = Inr ob \<longrightarrow> row_of oa j = row_of ob j) \<and>
         (\<forall>oa ob. D2_5 (Ndarray a) step (- 1) = Inr oa \<longrightarrow>
                   D2_5 (Ndarray b) step (- 1) = Inr ob \<longrightarrow> row_of oa j = row_of ob j)"
proof -
  have row: "row_of out j = stencil_row K (row_of x j) step"
    if "total5 K" and "shape x = [r, c]" and "wf x"
      and "five_point K (Ndarray x) step (- 1) = Inr out" for K x out
  proof -
    from that(4) obtain d1 b where v: "validate (Ndarray x) (- 1) = Inr (d1, b)"
      and d: "differentiate K d1 b step = Inr out"
      unfolding five_point_def bind_res_eq_Inr by auto
    from validate_Inr [OF v] that(2) have "b = False" and "d1 = x" and "10 \<le> c"
      by auto
    moreover have "length (flat x) = r * c" using that(2,3) by (simp add: wf_def)
    ultimately show ?thesis
      using differentiate_2d [OF that(1,2), of step] d assms(5) by auto
  qed
  show ?thesis
    using row [OF total5_D1 assms(1,3)] row [OF total5_D1 assms(2,4)]
      row [OF total5_D2 assms(1,3)] row [OF total5_D2 assms(2,4)] assms(6)
    by (simp add: D1_5_def D2_5_def)
qed

text \<open>
  The theorem at two arrays of shape (2, 10) with the same first row and different
  second rows: the first rows of the results are equal, the second rows are not.
\<close>

theorem rows_independent_witness:
  "row_of (NDArray [2, 10]
       [0, 1, 2, 3, 4, 5, 6, 7, 8, 9, 0, 2, 4, 6, 8, 10, 12, 14, 16, 18]) 0
     = row_of (NDArray [2, 10]
       [0, 1, 2, 3, 4, 5, 6, 7, 8, 9, 5, 5, 5, 5, 5, 5, 5, 5, 5, 5]) 0 \<and>
   D1_5 (Ndarray (NDArray [2, 10]
       [0, 1, 2, 3, 4, 5, 6, 7, 8, 9, 0, 2, 4, 6, 8, 10, 12, 14, 16, 18])) 1 (- 1)
     = Inr (NDArray [2, 10]
       [1, 1, 1, 1, 1, 1, 1, 1, 1, 1, 2, 2, 2, 2, 2, 2, 2, 2, 2, 2]) \<and>
   D1_5 (Ndarray (NDArray [2, 10]
       [0, 1, 2, 3, 4, 5, 6, 7, 8, 9, 5, 5, 5, 5, 5, 5, 5, 5, 5, 5])) 1 (- 1)
     = Inr (NDArray [2, 10]
       [1, 1, 1, 1, 1, 1, 1, 1, 1, 1, 0, 0, 0, 0, 0, 0, 0, 0, 0, 0]) \<and>
   row_of (NDArray [2, 10]
       [1, 1, 1, 1, 1, 1, 1, 1, 1, 1, 2, 2, 2, 2, 2, 2, 2, 2, 2, 2]) 0
     = row_of (NDArray [2, 10]
       [1, 1, 1, 1, 1, 1, 1, 1, 1, 1, 0, 0, 0, 0, 0, 0, 0, 0, 0, 0]) 0 \<and>
   row_of (NDArray [2, 10]
       [1, 1, 1, 1, 1, 1, 1, 1, 1, 1, 2, 2, 2, 2, 2, 2, 2, 2, 2, 2]) 1
     \<noteq> row_of (NDArray [2, 10]
       [1, 1, 1, 1, 1, 1, 1, 1, 1, 1, 0, 0, 0, 0, 0, 0, 0, 0, 0, 0]) 1"
proof -
  let ?a = "NDArray [2, 10]
       [0, 1, 2, 3, 4, 5, 6, 7, 8, 9, 0, 2, 4, 6, 8, 10, 12, 14, 16, 18]"
  let ?b = "NDArray [2, 10]
       [0, 1, 2, 3, 4, 5, 6, 7, 8, 9, 5, 5, 5, 5, 5, 5, 5, 5, 5, 5]"
  let ?oa = "NDArray [2, 10]
       [1, 1, 1, 1, 1, 1, 1, 1, 1, 1, 2, 2, 2, 2, 2, 2, 2, 2, 2, 2]"
  let ?ob = "NDArray [2, 10]
       [1, 1, 1, 1, 1, 1, 1, 1, 1, 1, 0, 0, 0, 0, 0, 0, 0, 0, 0, 0]"
  have rows: "row_of ?a 0 = row_of ?b 0" by (simp add: row_of_def)
  have run_a: "D1_5 (Ndarray ?a) 1 (- 1) = Inr ?oa" by code_simp
  have run_b: "D1_5 (Ndarray ?b) 1 (- 1) = Inr ?ob" by code_simp
  have "wf ?a" and "wf ?b" by (simp_all add: wf_def)
  with rows_independent [of ?a 2 10 ?b 0 1] rows run_a run_b
  have "row_of ?oa 0 = row_of ?ob 0" by simp
  moreover have "row_of ?oa 1 \<noteq> row_of ?ob 1" by (simp add: row_of_def)
  ultimately show ?thesis using rows run_a run_b by blast
qed

end
